theory Spec2Isabelle
  imports Main "HOL-Library.AList" "HOL-Library.Multiset" "HOL-Library.Char_ord" "HOL-Library.List_Lexorder"
begin

section \<open>Data model: JSON values, records and Python errors\<close>

text \<open>
  Both scripts read their inputs with \<^verbatim>\<open>json.loads\<close>, so a record is a Python dict
  with string keys whose values are JSON values. A dict keeps insertion order, hence a
  record is an association list (keys pairwise distinct, looked up with \<open>map_of\<close>).
  Strings are byte strings in UTF-8: comparing them bytewise is comparing Python strings
  by code point. JSON numbers with a fraction or an exponent (Python floats) are outside
  this model.
\<close>

datatype json =
    JNull
  | JBool bool
  | JInt int
  | JStr string
  | JArr "json list"
  | JObj "(string \<times> json) list"

type_synonym pyrecord = "(string \<times> json) list"

datatype py_error =
    TypeError
  | ValueError
  | KeyError
  | AttributeError
  | RuntimeError
  | NotADirectoryError
  | CalledProcessError
  | OSError

text \<open>
  Membership in a Python set goes through \<^verbatim>\<open>hash\<close> and \<^verbatim>\<open>==\<close>. A list or a dict is
  unhashable (\<^verbatim>\<open>TypeError\<close>, also when the set is empty); \<^verbatim>\<open>True == 1\<close> and
  \<^verbatim>\<open>False == 0\<close> with equal hashes, so a boolean and that integer are one element.
  \<open>hkey\<close> is the value up to that equality.
\<close>

datatype hkey = KNone | KInt int | KStr string

fun py_hash :: "json \<Rightarrow> py_error + hkey" where
  "py_hash JNull = Inr KNone"
| "py_hash (JBool b) = Inr (KInt (if b then 1 else 0))"
| "py_hash (JInt i) = Inr (KInt i)"
| "py_hash (JStr s) = Inr (KStr s)"
| "py_hash (JArr xs) = Inl TypeError"
| "py_hash (JObj kvs) = Inl TypeError"

definition dict_has :: "pyrecord \<Rightarrow> string \<Rightarrow> bool" where
  \<comment> \<open>\<^verbatim>\<open>k in d\<close>\<close>
  "dict_has d k = (map_of d k \<noteq> None)"

definition dict_get :: "pyrecord \<Rightarrow> string \<Rightarrow> json" where
  \<comment> \<open>\<^verbatim>\<open>d.get(k)\<close>: \<^verbatim>\<open>None\<close> for a missing key\<close>
  "dict_get d k = (case map_of d k of None \<Rightarrow> JNull | Some v \<Rightarrow> v)"


section \<open>merge\_final\_data.py: merge\<close>

text \<open>
  \<^verbatim>\<open>seen = {inst.get('pull_number') for inst in primary if 'pull_number' in inst}\<close>:
  the comprehension hashes the value of every primary record that has the key, in list
  order, and raises at the first unhashable one.
\<close>

fun seen_of_primary :: "pyrecord list \<Rightarrow> py_error + hkey set" where
  "seen_of_primary [] = Inr {}"
| "seen_of_primary (inst # rest) =
     (if dict_has inst ''pull_number'' then
        (case py_hash (dict_get inst ''pull_number'') of
           Inl e \<Rightarrow> Inl e
         | Inr k \<Rightarrow>
             (case seen_of_primary rest of
                Inl e \<Rightarrow> Inl e
              | Inr s \<Rightarrow> Inr (insert k s)))
      else seen_of_primary rest)"

text \<open>
  The state of the loop over \<^verbatim>\<open>secondary\<close>: the set \<^verbatim>\<open>seen\<close>, the list \<^verbatim>\<open>out\<close> and
  the warnings the logger has received.
\<close>

record merge_state =
  seen :: "hkey set"
  out :: "pyrecord list"
  warnings :: "string list"

definition skip_warning :: string where
  "skip_warning = ''Skipping entry with missing pull_number''"

fun merge_loop :: "merge_state \<Rightarrow> pyrecord list \<Rightarrow> py_error + merge_state" where
  "merge_loop st [] = Inr st"
| "merge_loop st (inst # rest) =
     (let pn = dict_get inst ''pull_number'' in
      if pn = JNull then
        merge_loop (st\<lparr>warnings := warnings st @ [skip_warning]\<rparr>) rest
      else
        (case py_hash pn of
           Inl e \<Rightarrow> Inl e
         | Inr k \<Rightarrow>
             if k \<notin> seen st then
               merge_loop (st\<lparr>out := out st @ [inst], seen := insert k (seen st)\<rparr>) rest
             else merge_loop st rest))"

definition merge :: "pyrecord list \<Rightarrow> pyrecord list \<Rightarrow> py_error + (pyrecord list \<times> string list)" where
  "merge primary secondary =
     (case seen_of_primary primary of
        Inl e \<Rightarrow> Inl e
      | Inr s \<Rightarrow>
          (case merge_loop \<lparr>seen = s, out = primary, warnings = []\<rparr> secondary of
             Inl e \<Rightarrow> Inl e
           | Inr st \<Rightarrow> Inr (out st, warnings st)))"


subsection \<open>Vocabulary of the claims about merge\<close>

definition pn_value :: "pyrecord \<Rightarrow> json" where
  \<comment> \<open>\<^verbatim>\<open>inst.get('pull_number')\<close>\<close>
  "pn_value r = dict_get r ''pull_number''"

definition hashable :: "json \<Rightarrow> bool" where
  "hashable v = (case py_hash v of Inl e \<Rightarrow> False | Inr k \<Rightarrow> True)"

text \<open>
  The pull\_number values of a list of records, up to Python equality, in list order:
  one entry for every record that has the key (a \<^verbatim>\<open>null\<close> value is the entry \<open>KNone\<close>).
\<close>

definition pn_keys :: "pyrecord list \<Rightarrow> hkey list" where
  "pn_keys rs = List.map_filter (\<lambda>r. if dict_has r ''pull_number'' then
      (case py_hash (pn_value r) of Inr k \<Rightarrow> Some k | Inl e \<Rightarrow> None) else None) rs"

definition has_pn :: "hkey \<Rightarrow> pyrecord \<Rightarrow> bool" where
  "has_pn k r = (py_hash (pn_value r) = Inr k)"

definition count_missing :: "pyrecord list \<Rightarrow> nat" where
  \<comment> \<open>how many records have no pull\_number, or \<^verbatim>\<open>null\<close> for it\<close>
  "count_missing rs = length (filter (\<lambda>r. pn_value r = JNull) rs)"

text \<open>
  Position \<open>i\<close> of the secondary list is selected, starting from the set \<open>seen0\<close>, when
  its record has a pull\_number that is not \<^verbatim>\<open>null\<close>, is not in \<open>seen0\<close>, and is not the
  pull\_number of a record at an earlier position of the secondary list.
\<close>

definition selected :: "hkey set \<Rightarrow> pyrecord list \<Rightarrow> nat \<Rightarrow> bool" where
  "selected seen0 s i =
     (i < length s \<and> pn_value (s ! i) \<noteq> JNull \<and>
      (case py_hash (pn_value (s ! i)) of
         Inl e \<Rightarrow> False
       | Inr k \<Rightarrow> k \<notin> seen0 \<and> Inr k \<notin> set (map (\<lambda>r. py_hash (pn_value r)) (take i s))))"

definition appended :: "pyrecord list \<Rightarrow> pyrecord list \<Rightarrow> nat \<Rightarrow> bool" where
  "appended primary secondary i = selected (set (pn_keys primary)) secondary i"

text \<open>
  The selection rule in the words of the specification: a secondary record is appended
  if and only if it has a pull\_number that is not \<^verbatim>\<open>null\<close> and does not occur among the
  pull\_number values of primary.
\<close>

definition spec_appended :: "pyrecord list \<Rightarrow> pyrecord list \<Rightarrow> nat \<Rightarrow> bool" where
  "spec_appended primary secondary i =
     (i < length secondary \<and> pn_value (secondary ! i) \<noteq> JNull \<and>
      (case py_hash (pn_value (secondary ! i)) of
         Inl e \<Rightarrow> False
       | Inr k \<Rightarrow> k \<notin> set (pn_keys primary)))"

section \<open>merge\_final\_data.py: the sort pass of main\<close>

subsection \<open>int() of a JSON value\<close>

text \<open>
  \<^verbatim>\<open>int(s)\<close> of a string strips white space on both sides, reads an optional sign and
  then decimal digits, where single underscores may stand between digits; anything else
  is a \<^verbatim>\<open>ValueError\<close>. Only ASCII white space and digits are modelled (strings are bytes
  here), and the interpreter's limit on the number of digits is not. \<^verbatim>\<open>int(None)\<close>, and
  \<^verbatim>\<open>int\<close> of a list or a dict, is a \<^verbatim>\<open>TypeError\<close>.
\<close>

definition is_space :: "char \<Rightarrow> bool" where
  "is_space c = (c \<in> set [CHR 0x09, CHR 0x0A, CHR 0x0B, CHR 0x0C, CHR 0x0D,
                            CHR 0x1C, CHR 0x1D, CHR 0x1E, CHR 0x1F, CHR 0x20])"

definition is_digit :: "char \<Rightarrow> bool" where
  "is_digit c = (c \<in> set ''0123456789'')"


definition py_strip :: "string \<Rightarrow> string" where
  "py_strip s = rev (dropWhile is_space (rev (dropWhile is_space s)))"





subsection \<open>list.sort with a key, reversed\<close>

text \<open>
  \<^verbatim>\<open>xs.sort(key=f, reverse=True)\<close> first computes the key of every element, in order; if
  \<^verbatim>\<open>f\<close> raises, the exception leaves the sort and the list is as it was. It then
  reverses the list, sorts it stably in ascending key order, and reverses the result, so
  that elements with equal keys keep their order. The stable sort is \<open>sort_key\<close>.
\<close>

fun py_map :: "('a \<Rightarrow> py_error + 'k) \<Rightarrow> 'a list \<Rightarrow> py_error + 'k list" where
  "py_map key [] = Inr []"
| "py_map key (x # xs) =
     (case key x of
        Inl e \<Rightarrow> Inl e
      | Inr k \<Rightarrow>
          (case py_map key xs of
             Inl e \<Rightarrow> Inl e
           | Inr ks \<Rightarrow> Inr (k # ks)))"









subsection \<open>Vocabulary of the claims about the order\<close>





section \<open>get\_versions\_by\_git.py\<close>

subsection \<open>The pattern step of get\_version\_by\_git\<close>

text \<open>
  \<^verbatim>\<open>re.search(r"(\d+\.\d+)(?:\.\d+)?", version)\<close> tries the start positions from left
  to right and returns group 1 of the first match. At one position \<^verbatim>\<open>\d+\<close> is greedy
  and a shorter run of digits is followed by a digit, never by the dot, so a match takes
  the whole run of digits, the dot, and the whole run of digits after it; the optional
  group does not change group 1. \<^verbatim>\<open>\d\<close> is an ASCII digit here.
\<close>

definition match_here :: "string \<Rightarrow> string option" where
  "match_here s =
     (let major = takeWhile is_digit s in
      if major = [] then None
      else
        (case dropWhile is_digit s of
           [] \<Rightarrow> None
         | c # rest \<Rightarrow>
             (let minor = takeWhile is_digit rest in
              if c = CHR ''.'' \<and> minor \<noteq> [] then Some (major @ CHR ''.'' # minor)
              else None)))"

fun re_search :: "string \<Rightarrow> string option" where
  "re_search [] = None"
| "re_search (c # cs) =
     (case match_here (c # cs) of
        Some v \<Rightarrow> Some v
      | None \<Rightarrow> re_search cs)"

definition extract_version :: "string \<Rightarrow> py_error + string" where
  \<comment> \<open>from \<^verbatim>\<open>result.stdout\<close> to the return or the \<^verbatim>\<open>RuntimeError\<close>\<close>
  "extract_version stdout =
     (let version = py_strip stdout in
      case re_search version of
        Some v \<Rightarrow> Inr v
      | None \<Rightarrow> Inl RuntimeError)"

subsection \<open>Directories and commands\<close>

text \<open>
  The scripts act on the file system and run git. The world is the set of directories
  that exist (paths as written, not normalised) and the list of operations performed so
  far. What an operation does is not decided by the program: \<open>env\<close> gives the outcome of
  each operation from everything that happened before it.
\<close>

datatype fs_op =
    Makedirs string
  | Clone string string bool
  | Copytree string string
  | Checkout string string
  | Describe string
  | Rmtree string

record world =
  dirs :: "string set"
  trace :: "fs_op list"

record env =
  makedirs_ok :: "fs_op list \<Rightarrow> string \<Rightarrow> bool"
  git_clone_ok :: "fs_op list \<Rightarrow> string \<Rightarrow> string \<Rightarrow> bool"
  copytree_ok :: "fs_op list \<Rightarrow> string \<Rightarrow> string \<Rightarrow> bool"
  copied :: "fs_op list \<Rightarrow> string \<Rightarrow> string \<Rightarrow> string set"
  checkout_ok :: "fs_op list \<Rightarrow> string \<Rightarrow> string \<Rightarrow> bool"
  describe_out :: "fs_op list \<Rightarrow> string \<Rightarrow> py_error + string"
  rmtree_fails :: "fs_op list \<Rightarrow> string \<Rightarrow> string set"

definition path_join :: "string \<Rightarrow> string \<Rightarrow> string" where
  \<comment> \<open>\<^verbatim>\<open>os.path.join(a, b)\<close>\<close>
  "path_join a b =
     (if take 1 b = ''/'' then b
      else if a = [] \<or> last a = CHR ''/'' then a @ b
      else a @ ''/'' @ b)"

definition in_tree :: "string \<Rightarrow> string \<Rightarrow> bool" where
  \<comment> \<open>\<open>p\<close> is the directory \<open>d\<close> or lies below it\<close>
  "in_tree d p = (p = d \<or> take (Suc (length d)) p = d @ ''/'')"

definition makedirs :: "env \<Rightarrow> string \<Rightarrow> world \<Rightarrow> py_error + world" where
  \<comment> \<open>\<^verbatim>\<open>os.makedirs(d, exist_ok=True)\<close>: an existing directory is accepted\<close>
  "makedirs e d w =
     (if d \<in> dirs w \<or> makedirs_ok e (trace w) d
      then Inr (w\<lparr>dirs := insert d (dirs w), trace := trace w @ [Makedirs d]\<rparr>)
      else Inl OSError)"

definition rmtree :: "env \<Rightarrow> string \<Rightarrow> world \<Rightarrow> world" where
  \<comment> \<open>\<^verbatim>\<open>shutil.rmtree(d, ignore_errors=True)\<close>: what cannot be removed stays, silently\<close>
  "rmtree e d w =
     w\<lparr>dirs := {p \<in> dirs w. \<not> in_tree d p \<or> p \<in> rmtree_fails e (trace w) d},
       trace := trace w @ [Rmtree d]\<rparr>"

definition get_version_by_git :: "env \<Rightarrow> string \<Rightarrow> world \<Rightarrow> (py_error + string) \<times> world" where
  "get_version_by_git e cloned_dir w =
     (if cloned_dir \<notin> dirs w then (Inl NotADirectoryError, w)
      else
        (let w' = w\<lparr>trace := trace w @ [Describe cloned_dir]\<rparr> in
         case describe_out e (trace w) cloned_dir of
           Inl err \<Rightarrow> (Inl err, w')
         | Inr stdout \<Rightarrow> (extract_version stdout, w')))"

subsection \<open>prepare\_repo\_cache\<close>

type_synonym repo_cache = "(string \<times> string) list"

definition repo_url :: "string \<Rightarrow> string" where
  "repo_url repo = ''https://github.com/'' @ repo @ ''.git''"

definition local_path :: "string \<Rightarrow> string \<Rightarrow> string" where
  \<comment> \<open>\<^verbatim>\<open>os.path.join(cache_dir, repo.replace("/", "__"))\<close>\<close>
  "local_path cache_dir repo =
     path_join cache_dir (concat (map (\<lambda>c. if c = CHR ''/'' then ''__'' else [c]) repo))"

fun repo_name :: "json \<Rightarrow> py_error + string" where
  \<comment> \<open>a list or dict fails at \<^verbatim>\<open>repo in repo_cache\<close>, another non-string at \<^verbatim>\<open>repo.replace\<close>\<close>
  "repo_name (JStr s) = Inr s"
| "repo_name (JArr xs) = Inl TypeError"
| "repo_name (JObj kvs) = Inl TypeError"
| "repo_name v = Inl AttributeError"

fun cache_loop ::
  "env \<Rightarrow> string \<Rightarrow> pyrecord list \<Rightarrow> repo_cache \<Rightarrow> world \<Rightarrow> (py_error + repo_cache) \<times> world" where
  "cache_loop e cache_dir [] rc w = (Inr rc, w)"
| "cache_loop e cache_dir (task # rest) rc w =
     (case map_of task ''repo'' of
        None \<Rightarrow> (Inl KeyError, w)
      | Some v \<Rightarrow>
          (case repo_name v of
             Inl err \<Rightarrow> (Inl err, w)
           | Inr repo \<Rightarrow>
               if map_of rc repo \<noteq> None then cache_loop e cache_dir rest rc w
               else
                 (let url = repo_url repo;
                      path = local_path cache_dir repo;
                      ok = git_clone_ok e (trace w) url path;
                      w' = w\<lparr>trace := trace w @ [Clone url path ok]\<rparr>
                  in if ok
                     then cache_loop e cache_dir rest (AList.update repo path rc)
                            (w'\<lparr>dirs := insert path (dirs w')\<rparr>)
                     else cache_loop e cache_dir rest rc w')))"

definition prepare_repo_cache ::
  "env \<Rightarrow> pyrecord list \<Rightarrow> string \<Rightarrow> world \<Rightarrow> (py_error + repo_cache) \<times> world" where
  "prepare_repo_cache e tasks cache_dir w =
     (case makedirs e cache_dir w of
        Inl err \<Rightarrow> (Inl err, w)
      | Inr w1 \<Rightarrow> cache_loop e cache_dir tasks [] w1)"

subsection \<open>process\_repo\_task\<close>

definition cache_lookup :: "repo_cache \<Rightarrow> json \<Rightarrow> py_error + string option" where
  \<comment> \<open>\<^verbatim>\<open>repo_cache.get(repo)\<close>: the keys of the cache are strings\<close>
  "cache_lookup rc repo =
     (case py_hash repo of
        Inl err \<Rightarrow> Inl err
      | Inr k \<Rightarrow> (case k of KStr s \<Rightarrow> Inr (map_of rc s) | _ \<Rightarrow> Inr None))"

text \<open>The body of the \<^verbatim>\<open>try\<close>: every exception it raises is a value \<open>Inl\<close>.\<close>

definition extract_body ::
  "env \<Rightarrow> pyrecord \<Rightarrow> json \<Rightarrow> json \<Rightarrow> string \<Rightarrow> repo_cache \<Rightarrow> world \<Rightarrow> (py_error + pyrecord) \<times> world" where
  "extract_body e task repo base_commit repo_dir rc w =
     (case cache_lookup rc repo of
        Inl err \<Rightarrow> (Inl err, w)
      | Inr None \<Rightarrow> (Inl RuntimeError, w)
      | Inr (Some cached_repo) \<Rightarrow>
          if cached_repo = [] \<or> cached_repo \<notin> dirs w then (Inl RuntimeError, w)
          else
            (let w1 = w\<lparr>dirs := dirs w \<union> {p \<in> copied e (trace w) cached_repo repo_dir.
                                             in_tree repo_dir p},
                        trace := trace w @ [Copytree cached_repo repo_dir]\<rparr>
             in if \<not> copytree_ok e (trace w) cached_repo repo_dir then (Inl OSError, w1)
                else
                  (case base_commit of
                     JStr commit \<Rightarrow>
                       (let w2 = w1\<lparr>trace := trace w1 @ [Checkout repo_dir commit]\<rparr>
                        in if \<not> checkout_ok e (trace w1) repo_dir commit
                           then (Inl CalledProcessError, w2)
                           else
                             (case get_version_by_git e repo_dir w2 of
                                (Inl err, w3) \<Rightarrow> (Inl err, w3)
                              | (Inr version, w3) \<Rightarrow>
                                  (Inr (AList.update ''version'' (JStr version) task), w3)))
                   | _ \<Rightarrow> (Inl TypeError, w1))))"

text \<open>
  The function raises (\<open>Inl\<close>) only before the \<^verbatim>\<open>try\<close>: a missing key, an
  \<^verbatim>\<open>instance_id\<close> that is not a string (\<^verbatim>\<open>os.path.join\<close>), or \<^verbatim>\<open>os.makedirs\<close>. Inside,
  \<^verbatim>\<open>except Exception\<close> turns every failure into \<^verbatim>\<open>None\<close>, and \<^verbatim>\<open>finally\<close> runs
  \<^verbatim>\<open>shutil.rmtree\<close> last.
\<close>

definition process_repo_task ::
  "env \<Rightarrow> pyrecord \<Rightarrow> string \<Rightarrow> repo_cache \<Rightarrow> world \<Rightarrow> (py_error + pyrecord option) \<times> world" where
  "process_repo_task e task testbed rc w =
     (case map_of task ''instance_id'' of
        None \<Rightarrow> (Inl KeyError, w)
      | Some instance_id \<Rightarrow>
     (case map_of task ''repo'' of
        None \<Rightarrow> (Inl KeyError, w)
      | Some repo \<Rightarrow>
     (case map_of task ''base_commit'' of
        None \<Rightarrow> (Inl KeyError, w)
      | Some base_commit \<Rightarrow>
     (case instance_id of
        JStr iid \<Rightarrow>
          (let repo_dir = path_join testbed iid in
           case makedirs e repo_dir w of
             Inl err \<Rightarrow> (Inl err, w)
           | Inr w1 \<Rightarrow>
               (case extract_body e task repo base_commit repo_dir rc w1 of
                  (Inl err, w2) \<Rightarrow> (Inr None, rmtree e repo_dir w2)
                | (Inr result, w2) \<Rightarrow> (Inr (Some result), rmtree e repo_dir w2)))
      | _ \<Rightarrow> (Inl TypeError, w)))))"

subsection \<open>process\_repos\<close>

text \<open>
  The pool runs the attempts in worker processes, up to \<^verbatim>\<open>max_workers\<close> at a time. The
  model runs them one after the other in the order of submission, which is one of the
  schedules, and keeps the results in that order. An attempt that raises makes
  \<^verbatim>\<open>future.result()\<close> raise in the parent; the other attempts have run all the same.
\<close>

fun run_tasks ::
  "env \<Rightarrow> string \<Rightarrow> repo_cache \<Rightarrow> pyrecord list \<Rightarrow> world \<Rightarrow> (py_error + pyrecord option) list \<times> world" where
  "run_tasks e testbed rc [] w = ([], w)"
| "run_tasks e testbed rc (t # ts) w =
     (case process_repo_task e t testbed rc w of
        (r, w1) \<Rightarrow>
          (case run_tasks e testbed rc ts w1 of
             (rs, w2) \<Rightarrow> (r # rs, w2)))"

fun collect_results :: "(py_error + pyrecord option) list \<Rightarrow> py_error + pyrecord list" where
  "collect_results [] = Inr []"
| "collect_results (Inl err # rs) = Inl err"
| "collect_results (Inr None # rs) = collect_results rs"
| "collect_results (Inr (Some res) # rs) =
     (case collect_results rs of
        Inl err \<Rightarrow> Inl err
      | Inr found \<Rightarrow> Inr (res # found))"

definition process_repos ::
  "env \<Rightarrow> pyrecord list \<Rightarrow> string \<Rightarrow> repo_cache \<Rightarrow> world \<Rightarrow> (py_error + pyrecord list) \<times> world" where
  "process_repos e tasks testbed rc w =
     (case makedirs e testbed w of
        Inl err \<Rightarrow> (Inl err, w)
      | Inr w1 \<Rightarrow>
          (case run_tasks e testbed rc tasks w1 of
             (rs, w2) \<Rightarrow> (collect_results rs, w2)))"

subsection \<open>main\<close>

text \<open>
  What main receives from outside: the outcome of reading the instance file, the
  \<^verbatim>\<open>--testbed\<close> and \<^verbatim>\<open>--last_stage_output_dir\<close> arguments, whether a file of the previous
  stage is found and what reading it gives, and whether the results can be written. The
  exit status of the process is 0 when main returns and 1 when an exception leaves it.
\<close>

record main_env =
  instances :: "py_error + pyrecord list"
  testbed_arg :: string
  last_stage_output_dir :: "string option"
  github_file_found :: bool
  processed_instances :: "py_error + pyrecord list"
  save_ok :: bool
  os_env :: env

record main_result =
  exit_status :: nat
  final_world :: world
  saved :: "pyrecord list option"

definition skip_processed :: "pyrecord list \<Rightarrow> pyrecord list \<Rightarrow> py_error + pyrecord list" where
  \<comment> \<open>the \<^verbatim>\<open>seen\<close> set of \<^verbatim>\<open>instance_id\<close>s and the filtered task list\<close>
  "skip_processed processed tasks =
     (case py_map py_hash (map (\<lambda>item. dict_get item ''instance_id'')
                              (filter (\<lambda>item. dict_has item ''instance_id'') processed)) of
        Inl err \<Rightarrow> Inl err
      | Inr seen_ids \<Rightarrow>
          (case py_map py_hash (map (\<lambda>t. dict_get t ''instance_id'') tasks) of
             Inl err \<Rightarrow> Inl err
           | Inr ks \<Rightarrow> Inr (map snd (filter (\<lambda>(k, t). k \<notin> set seen_ids) (zip ks tasks)))))"

definition remaining_tasks :: "main_env \<Rightarrow> pyrecord list \<Rightarrow> pyrecord list" where
  \<comment> \<open>the tasks after the \<^verbatim>\<open>if github_file:\<close> block, whose \<^verbatim>\<open>except\<close> keeps them all\<close>
  "remaining_tasks m tasks =
     (if github_file_found m then
        (case processed_instances m of
           Inl err \<Rightarrow> tasks
         | Inr processed \<Rightarrow>
             (case skip_processed processed tasks of
                Inl err \<Rightarrow> tasks
              | Inr ts \<Rightarrow> ts))
      else tasks)"

definition has_required :: "pyrecord \<Rightarrow> bool" where
  \<comment> \<open>\<^verbatim>\<open>{"repo", "base_commit", "instance_id"}.issubset(t)\<close>\<close>
  "has_required t = (dict_has t ''repo'' \<and> dict_has t ''base_commit'' \<and> dict_has t ''instance_id'')"

definition main :: "main_env \<Rightarrow> world \<Rightarrow> main_result" where
  "main m w =
     (case instances m of
        Inl err \<Rightarrow> \<lparr>exit_status = 0, final_world = w, saved = None\<rparr>
      | Inr tasks0 \<Rightarrow>
          (case last_stage_output_dir m of
             None \<Rightarrow> \<lparr>exit_status = 1, final_world = w, saved = None\<rparr>
           | Some d \<Rightarrow>
               (let tasks = remaining_tasks m tasks0 in
                if \<not> list_all has_required tasks
                then \<lparr>exit_status = 0, final_world = w, saved = None\<rparr>
                else
                  (let cache_dir = path_join (testbed_arg m) ''_cache'' in
                   case prepare_repo_cache (os_env m) tasks cache_dir w of
                     (Inl err, w1) \<Rightarrow> \<lparr>exit_status = 1, final_world = w1, saved = None\<rparr>
                   | (Inr rc, w1) \<Rightarrow>
                       (case process_repos (os_env m) tasks (testbed_arg m) rc w1 of
                          (Inl err, w2) \<Rightarrow> \<lparr>exit_status = 1, final_world = w2, saved = None\<rparr>
                        | (Inr results, w2) \<Rightarrow>
                            if save_ok m
                            then \<lparr>exit_status = 0, final_world = w2, saved = Some results\<rparr>
                            else \<lparr>exit_status = 1, final_world = w2, saved = None\<rparr>)))))"

subsection \<open>Vocabulary of the claims about extraction\<close>




subsection \<open>A sample environment\<close>

text \<open>
  Every operation succeeds, except that only \<^verbatim>\<open>x/y\<close> can be cloned and only commit
  \<^verbatim>\<open>abc\<close> can be checked out; \<^verbatim>\<open>git describe\<close> prints \<^verbatim>\<open>v2.3.1-0-gabc\<close>.
\<close>

definition sample_env :: env where
  "sample_env =
     \<lparr>makedirs_ok = (\<lambda>t d. True),
      git_clone_ok = (\<lambda>t url path. url = ''https://github.com/x/y.git''),
      copytree_ok = (\<lambda>t src dst. True),
      copied = (\<lambda>t src dst. {dst @ ''/.git''}),
      checkout_ok = (\<lambda>t d commit. commit = ''abc''),
      describe_out = (\<lambda>t d. Inr ''v2.3.1-0-gabc''),
      rmtree_fails = (\<lambda>t d. {})\<rparr>"


definition sample_world :: world where
  "sample_world = \<lparr>dirs = {''testbed/_cache/x__y''}, trace = []\<rparr>"


section \<open>Properties of merge\<close>


lemma py_hash_KNone: "py_hash v = Inr KNone \<longleftrightarrow> v = JNull"
  by (cases v) auto

lemma nths_cong_below:
  "(\<And>i. i < length xs \<Longrightarrow> (i \<in> A) = (i \<in> B)) \<Longrightarrow> nths xs A = nths xs B"
  unfolding nths_def
  by (rule arg_cong[where f="map fst"], rule filter_cong) (auto simp: in_set_zip)

lemma selected_0:
  "selected sn (x # xs) 0 \<longleftrightarrow> pn_value x \<noteq> JNull \<and> (\<exists>k. py_hash (pn_value x) = Inr k \<and> k \<notin> sn)"
  by (auto simp: selected_def split: sum.splits)

lemma selected_Suc_null:
  "pn_value x = JNull \<Longrightarrow> selected sn (x # xs) (Suc j) = selected sn xs j"
  by (auto simp: selected_def py_hash_KNone split: sum.splits)

lemma selected_Suc_key:
  "py_hash (pn_value x) = Inr k \<Longrightarrow> selected sn (x # xs) (Suc j) = selected (insert k sn) xs j"
  by (auto simp: selected_def split: sum.splits)

lemma merge_loop_out:
  "merge_loop st s = Inr st' \<Longrightarrow> out st' = out st @ nths s {i. selected (seen st) s i}"
proof (induction s arbitrary: st)
  case Nil
  then show ?case by simp
next
  case (Cons x xs)
  show ?case
  proof (cases "pn_value x = JNull")
    case True
    with Cons.prems have "merge_loop (st\<lparr>warnings := warnings st @ [skip_warning]\<rparr>) xs = Inr st'"
      by (simp add: pn_value_def)
    from Cons.IH[OF this] True show ?thesis
      by (simp add: nths_Cons selected_0 selected_Suc_null)
  next
    case False
    with Cons.prems obtain k where k: "py_hash (pn_value x) = Inr k"
      by (auto simp: pn_value_def split: sum.splits)
    show ?thesis
    proof (cases "k \<in> seen st")
      case True
      with Cons.prems False k have "merge_loop st xs = Inr st'"
        by (simp add: pn_value_def)
      from Cons.IH[OF this] True False k show ?thesis
        by (simp add: nths_Cons selected_0 selected_Suc_key[OF k] insert_absorb)
    next
      case notin: False
      with Cons.prems False k
      have "merge_loop (st\<lparr>out := out st @ [x], seen := insert k (seen st)\<rparr>) xs = Inr st'"
        by (simp add: pn_value_def)
      from Cons.IH[OF this] notin False k show ?thesis
        by (simp add: nths_Cons selected_0 selected_Suc_key[OF k])
    qed
  qed
qed



lemma hashable_obtain: "hashable v \<Longrightarrow> \<exists>k. py_hash v = Inr k"
  by (auto simp: hashable_def split: sum.splits)

lemma merge_loop_warnings:
  "merge_loop st s = Inr st' \<Longrightarrow>
   warnings st' = warnings st @ replicate (count_missing s) skip_warning"
proof (induction s arbitrary: st)
  case Nil
  then show ?case by (simp add: count_missing_def)
next
  case (Cons x xs)
  then show ?case
    by (auto simp: count_missing_def pn_value_def Let_def replicate_append_same
             split: if_splits sum.splits)
qed


lemma merge_loop_returns:
  "\<forall>r\<in>set s. hashable (pn_value r) \<Longrightarrow> \<exists>st'. merge_loop st s = Inr st'"
proof (induction s arbitrary: st)
  case Nil
  then show ?case by simp
next
  case (Cons x xs)
  then show ?case
    by (auto simp: pn_value_def Let_def hashable_def split: sum.splits)
qed

lemma merge_loop_raises:
  "merge_loop st s = Inl e \<Longrightarrow> e = TypeError \<and> (\<exists>r\<in>set s. \<not> hashable (pn_value r))"
proof (induction s arbitrary: st)
  case Nil
  then show ?case by simp
next
  case (Cons x xs)
  show ?case
  proof (cases "hashable (pn_value x)")
    case True
    then obtain k where "py_hash (pn_value x) = Inr k" using hashable_obtain by blast
    with Cons show ?thesis
      by (auto simp: pn_value_def Let_def split: if_splits)
  next
    case False
    then have "py_hash (pn_value x) = Inl TypeError"
      by (cases "pn_value x") (auto simp: hashable_def)
    with Cons.prems False show ?thesis
      by (auto simp: pn_value_def Let_def hashable_def split: if_splits)
  qed
qed

lemma seen_of_primary_returns:
  "\<forall>r\<in>set p. hashable (pn_value r) \<Longrightarrow> seen_of_primary p = Inr (set (pn_keys p))"
proof (induction p)
  case Nil
  then show ?case by (simp add: pn_keys_def map_filter_simps)
next
  case (Cons x xs)
  then show ?case
    by (auto simp: pn_keys_def map_filter_simps pn_value_def hashable_def split: sum.splits)
qed

lemma seen_of_primary_raises:
  "seen_of_primary p = Inl e \<Longrightarrow> e = TypeError \<and> (\<exists>r\<in>set p. \<not> hashable (pn_value r))"
proof (induction p)
  case Nil
  then show ?case by simp
next
  case (Cons x xs)
  show ?case
  proof (cases "hashable (pn_value x)")
    case True
    then obtain k where "py_hash (pn_value x) = Inr k" using hashable_obtain by blast
    with Cons show ?thesis
      by (auto simp: pn_value_def split: if_splits sum.splits)
  next
    case False
    then have "py_hash (pn_value x) = Inl TypeError"
      by (cases "pn_value x") (auto simp: hashable_def)
    with Cons False show ?thesis
      by (auto simp: pn_value_def hashable_def dict_has_def dict_get_def
               split: if_splits sum.splits option.splits)
  qed
qed

lemma merge_closed_form:
  assumes "\<forall>r\<in>set primary. hashable (pn_value r)" and "\<forall>r\<in>set secondary. hashable (pn_value r)"
  shows "merge primary secondary =
         Inr (primary @ nths secondary {i. appended primary secondary i},
              replicate (count_missing secondary) skip_warning)"
proof -
  let ?st = "\<lparr>seen = set (pn_keys primary), out = primary, warnings = []\<rparr>"
  from merge_loop_returns[OF assms(2)] obtain st' where st': "merge_loop ?st secondary = Inr st'"
    by blast
  from merge_loop_out[OF st'] merge_loop_warnings[OF st'] st' seen_of_primary_returns[OF assms(1)]
  show ?thesis
    by (simp add: merge_def appended_def)
qed

lemma merge_raises:
  "merge primary secondary = Inl e \<Longrightarrow>
   e = TypeError \<and> (\<exists>r\<in>set (primary @ secondary). \<not> hashable (pn_value r))"
  by (auto simp: merge_def split: sum.splits dest: seen_of_primary_raises merge_loop_raises)






lemma set_pn_keys:
  "set (pn_keys rs) = {k. \<exists>r\<in>set rs. dict_has r ''pull_number'' \<and> py_hash (pn_value r) = Inr k}"
  by (force simp: pn_keys_def map_filter_def split: if_splits sum.splits)

lemma nonnull_has_key: "pn_value r \<noteq> JNull \<Longrightarrow> dict_has r ''pull_number''"
  by (auto simp: pn_value_def dict_has_def dict_get_def split: option.splits)

lemma merge_Inr_loop:
  "merge primary secondary = Inr (outp, log) \<Longrightarrow>
   \<exists>st'. seen_of_primary primary = Inr (set (pn_keys primary)) \<and>
         merge_loop \<lparr>seen = set (pn_keys primary), out = primary, warnings = []\<rparr> secondary = Inr st' \<and>
         outp = out st' \<and> log = warnings st'"
proof -
  assume m: "merge primary secondary = Inr (outp, log)"
  have "\<forall>r\<in>set primary. hashable (pn_value r)"
  proof (rule ccontr)
    assume "\<not> ?thesis"
    then obtain r where r: "r \<in> set primary" "\<not> hashable (pn_value r)" by blast
    have "\<exists>e. seen_of_primary primary = Inl e" using r
    proof (induction primary)
      case Nil
      then show ?case by simp
    next
      case (Cons x xs)
      then show ?case
        by (cases "x = r")
           (auto simp: hashable_def pn_value_def dict_has_def dict_get_def
                 split: sum.splits option.splits)
    qed
    with m show False by (auto simp: merge_def)
  qed
  from seen_of_primary_returns[OF this] m show ?thesis
    by (auto simp: merge_def split: sum.splits)
qed








lemma merge_loop_first:
  "merge_loop st s = Inr st' \<Longrightarrow> k \<noteq> KNone \<Longrightarrow>
   filter (has_pn k) (out st') =
   filter (has_pn k) (out st) @
     (if k \<in> seen st then [] else (case find (has_pn k) s of None \<Rightarrow> [] | Some r \<Rightarrow> [r]))"
proof (induction s arbitrary: st)
  case Nil
  then show ?case by simp
next
  case (Cons x xs)
  show ?case
  proof (cases "pn_value x = JNull")
    case True
    with Cons.prems have "merge_loop (st\<lparr>warnings := warnings st @ [skip_warning]\<rparr>) xs = Inr st'"
      by (simp add: pn_value_def)
    from Cons.IH[OF this Cons.prems(2)] True Cons.prems(2) show ?thesis
      by (auto simp: has_pn_def)
  next
    case False
    with Cons.prems obtain j where j: "py_hash (pn_value x) = Inr j"
      by (auto simp: pn_value_def split: sum.splits)
    show ?thesis
    proof (cases "j \<in> seen st")
      case True
      with Cons.prems False j have "merge_loop st xs = Inr st'"
        by (simp add: pn_value_def)
      from Cons.IH[OF this Cons.prems(2)] True j show ?thesis
        by (auto simp: has_pn_def)
    next
      case notin: False
      with Cons.prems False j
      have "merge_loop (st\<lparr>out := out st @ [x], seen := insert j (seen st)\<rparr>) xs = Inr st'"
        by (simp add: pn_value_def)
      from Cons.IH[OF this Cons.prems(2)] notin j show ?thesis
        by (auto simp: has_pn_def)
    qed
  qed
qed

lemma filter_has_pn_primary:
  "k \<noteq> KNone \<Longrightarrow> k \<notin> set (pn_keys primary) \<Longrightarrow> filter (has_pn k) primary = []"
proof -
  assume k: "k \<noteq> KNone" "k \<notin> set (pn_keys primary)"
  have "\<not> has_pn k r" if "r \<in> set primary" for r
  proof (cases "dict_has r ''pull_number''")
    case True
    with that k(2) show ?thesis by (auto simp: set_pn_keys has_pn_def)
  next
    case False
    then have "pn_value r = JNull" using nonnull_has_key by blast
    with k(1) show ?thesis by (auto simp: has_pn_def)
  qed
  then show ?thesis by (simp add: filter_empty_conv)
qed

text \<open>
  Claim C10. Let \<open>k\<close> be a pull\_number value that does not occur in primary and \<open>r\<close> the
  first record of secondary that has it (\<open>find\<close> returns the first match). Then \<open>r\<close> is
  the only record with pull\_number \<open>k\<close> in the output, however many later records of
  secondary share it, and the warnings are exactly one per secondary record with a
  missing pull\_number: none is logged for a dropped duplicate.
\<close>
theorem merge_keeps_first_secondary_duplicate:
  assumes "merge primary secondary = Inr (outp, log)"
    and "k \<noteq> KNone" and "k \<notin> set (pn_keys primary)"
    and "find (has_pn k) secondary = Some r"
  shows "filter (has_pn k) outp = [r] \<and> log = replicate (count_missing secondary) skip_warning"
proof -
  from merge_Inr_loop[OF assms(1)] obtain st' where
    run: "merge_loop \<lparr>seen = set (pn_keys primary), out = primary, warnings = []\<rparr> secondary = Inr st'"
    and outp: "outp = out st'" and log: "log = warnings st'" by blast
  from merge_loop_first[OF run assms(2)] assms(3,4) outp
  have "filter (has_pn k) outp = [r]"
    by (simp add: filter_has_pn_primary[OF assms(2,3)])
  moreover from merge_loop_warnings[OF run] log
  have "log = replicate (count_missing secondary) skip_warning" by simp
  ultimately show ?thesis by simp
qed

text \<open>
  Claim C1, as amended. When every pull\_number is hashable (\<^verbatim>\<open>null\<close>, a boolean, an
  integer or a string), merge returns primary, record by record and in order, followed by
  the records of secondary at the positions \<open>appended\<close> selects, in secondary's order:
  those whose pull\_number is present, is not \<^verbatim>\<open>null\<close>, does not occur in primary and is
  not the pull\_number of an earlier secondary record. A secondary record without a
  pull\_number is never selected and each one is logged with one warning. The output is
  built from the input records themselves (\<open>nths\<close> selects, nothing is rewritten).
\<close>
theorem merge_selects_first_unseen:
  assumes "\<forall>r\<in>set primary. hashable (pn_value r)" and "\<forall>r\<in>set secondary. hashable (pn_value r)"
  shows "merge primary secondary =
         Inr (primary @ nths secondary {i. appended primary secondary i},
              replicate (count_missing secondary) skip_warning)"
  using assms by (rule merge_closed_form)

theorem merge_selects_first_unseen_witness:
  "merge
     [[(''pull_number'', JInt 5), (''version'', JStr ''2.3'')], [(''pull_number'', JInt 3)]]
     [[(''pull_number'', JInt 3), (''version'', JStr ''0.9'')],
      [(''pull_number'', JInt 7), (''version'', JStr ''1.0'')],
      [(''instance_id'', JStr ''t1'')],
      [(''pull_number'', JInt 7), (''version'', JStr ''1.1'')]]
   = Inr ([[(''pull_number'', JInt 5), (''version'', JStr ''2.3'')], [(''pull_number'', JInt 3)],
           [(''pull_number'', JInt 7), (''version'', JStr ''1.0'')]],
          [skip_warning])"
  (is "merge ?p ?s = _")
proof -
  have p: "\<forall>r\<in>set ?p. hashable (pn_value r)" and s: "\<forall>r\<in>set ?s. hashable (pn_value r)"
    by (simp_all add: hashable_def pn_value_def dict_get_def)
  have sel: "nths ?s {i. appended ?p ?s i} = [[(''pull_number'', JInt 7), (''version'', JStr ''1.0'')]]"
    by (simp add: nths_Cons appended_def selected_def pn_keys_def map_filter_simps pn_value_def
          dict_get_def dict_has_def)
  have missing: "count_missing ?s = 1"
    by (simp add: count_missing_def pn_value_def dict_get_def)
  from merge_selects_first_unseen[OF p s] show ?thesis
    by (simp add: sel missing)
qed

text \<open>
  Claim C1 as stated fails: with an empty primary and two secondary records of
  pull\_number 7, the second record has a pull\_number that is not \<^verbatim>\<open>null\<close> and does not
  occur in primary, yet merge does not append it.
\<close>

theorem merge_secondary_duplicate_counterexample:
  "merge []
     [[(''pull_number'', JInt 7), (''version'', JStr ''1.0'')],
      [(''pull_number'', JInt 7), (''version'', JStr ''1.1'')]]
   = Inr ([[(''pull_number'', JInt 7), (''version'', JStr ''1.0'')]], [])
   \<and> spec_appended []
       [[(''pull_number'', JInt 7), (''version'', JStr ''1.0'')],
        [(''pull_number'', JInt 7), (''version'', JStr ''1.1'')]] 1
   \<and> [(''pull_number'', JInt 7), (''version'', JStr ''1.1'')]
       \<notin> set [[(''pull_number'', JInt 7), (''version'', JStr ''1.0'')]]"
  by (simp add: merge_def dict_get_def dict_has_def spec_appended_def pn_value_def pn_keys_def
        map_filter_simps)





theorem merge_keeps_first_secondary_duplicate_witness:
  "merge [[(''pull_number'', JInt 5)]]
     [[(''pull_number'', JInt 7), (''version'', JStr ''1.0'')],
      [(''pull_number'', JInt 7), (''version'', JStr ''1.1'')],
      [(''pull_number'', JInt 5), (''version'', JStr ''0.1'')]]
   = Inr ([[(''pull_number'', JInt 5)], [(''pull_number'', JInt 7), (''version'', JStr ''1.0'')]], [])
   \<and> filter (has_pn (KInt 7))
       [[(''pull_number'', JInt 5)], [(''pull_number'', JInt 7), (''version'', JStr ''1.0'')]]
     = [[(''pull_number'', JInt 7), (''version'', JStr ''1.0'')]]"
  (is "merge ?p ?s = Inr (?out, []) \<and> _")
proof -
  have m: "merge ?p ?s = Inr (?out, [])"
    by (simp add: merge_def dict_get_def dict_has_def)
  have k: "KInt 7 \<notin> set (pn_keys ?p)"
    by (simp add: pn_keys_def map_filter_simps pn_value_def dict_get_def dict_has_def)
  have f: "find (has_pn (KInt 7)) ?s = Some [(''pull_number'', JInt 7), (''version'', JStr ''1.0'')]"
    by (simp add: has_pn_def pn_value_def dict_get_def)
  from merge_keeps_first_secondary_duplicate[OF m _ k f] m show ?thesis
    by simp
qed

section \<open>Properties of the sort pass\<close>



















section \<open>Properties of the pattern step\<close>










section \<open>Properties of process\_repo\_task\<close>








section \<open>Properties of prepare\_repo\_cache\<close>














section \<open>Properties of main\<close>

text \<open>
  Claim C7, as amended. When the instance file cannot be read or parsed, main returns at
  once: nothing is created, cloned or extracted, nothing is saved, and the exit status is
  0. When the file is read, \<^verbatim>\<open>--last_stage_output_dir\<close> is given and a task that remains
  after the already-processed filter lacks one of \<^verbatim>\<open>repo\<close>, \<^verbatim>\<open>base_commit\<close>,
  \<^verbatim>\<open>instance_id\<close>, main returns in the same way, before any cloning or extraction, with
  exit status 0.
\<close>

theorem main_returns_before_work:
  "((\<exists>err. instances m = Inl err) \<longrightarrow>
      main m w = \<lparr>exit_status = 0, final_world = w, saved = None\<rparr>)
   \<and> (\<forall>tasks d. instances m = Inr tasks \<and> last_stage_output_dir m = Some d \<and>
         \<not> list_all has_required (remaining_tasks m tasks) \<longrightarrow>
         main m w = \<lparr>exit_status = 0, final_world = w, saved = None\<rparr>)"
proof (intro conjI allI impI)
  assume "\<exists>err. instances m = Inl err"
  then show "main m w = \<lparr>exit_status = 0, final_world = w, saved = None\<rparr>"
    by (auto simp: main_def)
next
  fix tasks d
  assume "instances m = Inr tasks \<and> last_stage_output_dir m = Some d \<and>
         \<not> list_all has_required (remaining_tasks m tasks)"
  then show "main m w = \<lparr>exit_status = 0, final_world = w, saved = None\<rparr>"
    by (simp add: main_def Let_def)
qed

theorem main_returns_before_work_witness:
  "main \<lparr>instances = Inr [[(''repo'', JStr ''x/y''), (''instance_id'', JStr ''t1'')]],
         testbed_arg = ''testbed'', last_stage_output_dir = Some ''out'',
         github_file_found = False, processed_instances = Inr [], save_ok = True,
         os_env = sample_env\<rparr> sample_world
   = \<lparr>exit_status = 0, final_world = sample_world, saved = None\<rparr>
   \<and> main \<lparr>instances = Inl ValueError,
         testbed_arg = ''testbed'', last_stage_output_dir = Some ''out'',
         github_file_found = False, processed_instances = Inr [], save_ok = True,
         os_env = sample_env\<rparr> sample_world
   = \<lparr>exit_status = 0, final_world = sample_world, saved = None\<rparr>"
  (is "main ?m1 _ = _ \<and> main ?m2 _ = _")
proof -
  have bad: "\<not> list_all has_required
               (remaining_tasks ?m1 [[(''repo'', JStr ''x/y''), (''instance_id'', JStr ''t1'')]])"
    by (simp add: remaining_tasks_def has_required_def dict_has_def)
  have i1: "instances ?m1 = Inr [[(''repo'', JStr ''x/y''), (''instance_id'', JStr ''t1'')]]"
    and d1: "last_stage_output_dir ?m1 = Some ''out''"
    and i2: "\<exists>err. instances ?m2 = Inl err"
    by simp_all
  from main_returns_before_work[of ?m1 sample_world] i1 d1 bad
  have "main ?m1 sample_world = \<lparr>exit_status = 0, final_world = sample_world, saved = None\<rparr>"
    by blast
  moreover from main_returns_before_work[of ?m2 sample_world] i2
  have "main ?m2 sample_world = \<lparr>exit_status = 0, final_world = sample_world, saved = None\<rparr>"
    by blast
  ultimately show ?thesis by (intro conjI) assumption+
qed

text \<open>
  Claim C7 as stated fails. An unreadable instance file, and a task without
  \<^verbatim>\<open>base_commit\<close>, make main print and return: the exit status is 0, not non-zero. And
  a task without \<^verbatim>\<open>repo\<close> whose \<^verbatim>\<open>instance_id\<close> is in the file of the previous stage is
  filtered out before the check, so the run does not stop: it creates the cache directory
  and the testbed and saves an empty result.
\<close>

theorem main_exit_status_counterexample:
  "exit_status (main \<lparr>instances = Inl ValueError,
         testbed_arg = ''testbed'', last_stage_output_dir = Some ''out'',
         github_file_found = False, processed_instances = Inr [], save_ok = True,
         os_env = sample_env\<rparr> sample_world) = 0
   \<and> exit_status (main \<lparr>instances = Inr [[(''repo'', JStr ''x/y''), (''instance_id'', JStr ''t1'')]],
         testbed_arg = ''testbed'', last_stage_output_dir = Some ''out'',
         github_file_found = False, processed_instances = Inr [], save_ok = True,
         os_env = sample_env\<rparr> sample_world) = 0
   \<and> main \<lparr>instances = Inr [[(''base_commit'', JStr ''abc''), (''instance_id'', JStr ''t1'')]],
         testbed_arg = ''testbed'', last_stage_output_dir = Some ''out'',
         github_file_found = True,
         processed_instances = Inr [[(''instance_id'', JStr ''t1''), (''version'', JStr ''2.3'')]],
         save_ok = True, os_env = sample_env\<rparr> \<lparr>dirs = {}, trace = []\<rparr>
     = \<lparr>exit_status = 0,
        final_world = \<lparr>dirs = {''testbed'', ''testbed/_cache''},
                        trace = [Makedirs ''testbed/_cache'', Makedirs ''testbed'']\<rparr>,
        saved = Some []\<rparr>"
  by (simp add: main_def remaining_tasks_def skip_processed_def has_required_def dict_has_def
        dict_get_def prepare_repo_cache_def process_repos_def makedirs_def path_join_def
        sample_env_def Let_def insert_commute)

end
